theory Spec2Isabelle
  imports Main
begin

section \<open>The NIS2 exposure questionnaire (script.js)\<close>

text \<open>
  The script keeps one global object \<open>state\<close> (the current step and the answers given so
  far), moves between five step views and, after the fourth answer, maps the answers to one
  of the strings \<open>tier-1\<close>, \<open>tier-2\<close>, \<open>tier-3\<close> through an additive integer score.
  The global object is passed explicitly here: every function that reads or writes it takes
  the state and, where the source can assign to it, returns the new one.
\<close>

subsection \<open>Data model\<close>

text \<open>
  The single-valued answers start as \<open>null\<close> and are overwritten with the string the page
  hands to \<open>selectOption\<close>. The calculator compares them with string literals by \<open>===\<close>,
  which is false for \<open>null\<close> and for every other string.
\<close>

datatype jsvalue = Null | Str string

record digitalInfrastructure =
  cloud :: bool
  mfa :: bool
  incidentProcess :: bool
  supplyChain :: bool

record answers =
  entitySize :: jsvalue
  serviceSensitivity :: jsvalue
  digitalInfrastructure :: digitalInfrastructure
  governanceMaturity :: jsvalue

record state =
  step :: int
  answers :: answers

text \<open>The object literal of lines 8-21, which \<open>restartAssessment\<close> writes again.\<close>

definition initialAnswers :: answers where
  "initialAnswers =
     \<lparr>entitySize = Null,
      serviceSensitivity = Null,
      digitalInfrastructure =
        \<lparr>cloud = False, mfa = False, incidentProcess = False, supplyChain = False\<rparr>,
      governanceMaturity = Null\<rparr>"

definition initialState :: state where
  "initialState = \<lparr>step = 1, answers = initialAnswers\<rparr>"

subsection \<open>The tier calculator (lines 122-166)\<close>

text \<open>
  The local variables of \<open>calculateTier\<close> are the numbered bindings below, one binding per
  assignment of the source and in its order. All numbers that occur are small integers, on
  which JavaScript's doubles are exact, so \<open>int\<close> is used.
\<close>

definition infraRisk :: "digitalInfrastructure \<Rightarrow> int" where
  "infraRisk d =
     (let r0 = 0;
          r1 = (if cloud d then r0 + 1 else r0);
          r2 = (if \<not> mfa d then r1 + 2 else r1);
          r3 = (if \<not> incidentProcess d then r2 + 2 else r2);
          r4 = (if supplyChain d then r3 + 1 else r3)
      in r4)"

definition governanceModifier :: "jsvalue \<Rightarrow> int" where
  "governanceModifier g =
     (let m0 = 0
      in if g = Str ''none'' then 2
         else if g = Str ''basic'' then 1
         else if g = Str ''structured'' then - 1
         else if g = Str ''iso'' then - 2
         else m0)"

definition score :: "answers \<Rightarrow> int" where
  "score a =
     (let s0 = 0;
          s1 = (if entitySize a = Str ''large'' then s0 + 3
                else if entitySize a = Str ''medium'' then s0 + 2
                else s0 + 1);
          s2 = (if serviceSensitivity a = Str ''high'' then s1 + 3
                else if serviceSensitivity a = Str ''medium'' then s1 + 2
                else s1 + 1);
          s3 = s2 + min (infraRisk (digitalInfrastructure a)) 3;
          s4 = s3 + governanceModifier (governanceMaturity a)
      in s4)"

text \<open>
  \<open>calculateTier\<close> reads \<open>state.answers\<close> and returns a string. Its body has no assignment
  to the global object and no operation that can throw (comparisons, additions, \<open>Math.min\<close>
  and reads of fields of an object that is never \<open>null\<close>), so the model returns the state it
  was given next to the result and has no error branch.
\<close>

definition calculateTier :: "state \<Rightarrow> string \<times> state" where
  "calculateTier st =
     (let sc = score (answers st)
      in if sc \<ge> 6 then (''tier-3'', st)
         else if sc \<ge> 4 then (''tier-2'', st)
         else (''tier-1'', st))"

subsection \<open>The rubric as the specification words it\<close>

text \<open>
  The weight tables of the specification, written from its sentences, to be compared with
  what \<open>score\<close> computes.
\<close>

definition sizeWeight :: "jsvalue \<Rightarrow> int" where
  "sizeWeight v =
     (if v = Str ''large'' then 3
      else if v = Str ''medium'' then 2
      else if v = Str ''small'' then 1
      else 1)"

definition sensitivityWeight :: "jsvalue \<Rightarrow> int" where
  "sensitivityWeight v =
     (if v = Str ''high'' then 3
      else if v = Str ''medium'' then 2
      else if v = Str ''low'' then 1
      else 1)"

definition governanceWeight :: "jsvalue \<Rightarrow> int" where
  "governanceWeight v =
     (if v = Str ''none'' then 2
      else if v = Str ''basic'' then 1
      else if v = Str ''structured'' then - 1
      else if v = Str ''iso'' then - 2
      else 0)"

text \<open>
  The order of the three results, as the comment above \<open>calculateTier\<close> gives it:
  \<open>tier-1\<close> is low, \<open>tier-2\<close> medium, \<open>tier-3\<close> high.
\<close>

definition tierLevel :: "string \<Rightarrow> nat" where
  "tierLevel t = (if t = ''tier-3'' then 3 else if t = ''tier-2'' then 2 else 1)"

subsection \<open>The page, as far as the script's control flow depends on it\<close>

text \<open>
  The markup of the page is not part of the script, so what the script looks up in it is a
  parameter. \<open>stepsEntry pg n\<close> says that the element stored under key \<open>n\<close> of the table
  \<open>steps\<close> (filled once, when the script is loaded) is not \<open>null\<close>; \<open>stepElement pg n\<close>
  says that \<open>document.getElementById\<close> finds the element \<open>step-n\<close> when
  \<open>updateSelectionUI\<close> asks for it. Which cards carry the class \<open>selected\<close>, which view is
  \<open>active\<close> and the scroll position are presentation and are left out.
\<close>

record page =
  stepsEntry :: "int \<Rightarrow> bool"
  stepElement :: "int \<Rightarrow> bool"

text \<open>
  \<open>steps[stepNumber]\<close> (lines 24-30, 46): the table has the keys 1 to 5 only, so any other
  key gives \<open>undefined\<close>, which is falsy like \<open>null\<close>.
\<close>

definition steps :: "page \<Rightarrow> int \<Rightarrow> bool" where
  "steps pg n = (1 \<le> n \<and> n \<le> 5 \<and> stepsEntry pg n)"

subsection \<open>Navigation (lines 39-51, 112-116, 270-295)\<close>

definition goToStep :: "page \<Rightarrow> int \<Rightarrow> state \<Rightarrow> state" where
  "goToStep pg stepNumber st =
     (if steps pg stepNumber then st\<lparr>step := stepNumber\<rparr> else st)"

text \<open>\<open>goBack\<close> is handed the step to leave by its caller; it does not read \<open>state.step\<close>.\<close>

definition goBack :: "page \<Rightarrow> int \<Rightarrow> state \<Rightarrow> state" where
  "goBack pg currentStep st =
     (if currentStep > 1 then goToStep pg (currentStep - 1) st else st)"

text \<open>
  \<open>restartAssessment\<close> assigns a fresh object literal to \<open>state.answers\<close>, clears the
  cards and checkboxes of the page (\<open>querySelectorAll\<close> returns a list, possibly empty, and
  cannot fail) and goes to step 1.
\<close>

definition restartAssessment :: "page \<Rightarrow> state \<Rightarrow> state" where
  "restartAssessment pg st =
     (let st1 = st\<lparr>answers :=
                   \<lparr>entitySize = Null,
                    serviceSensitivity = Null,
                    digitalInfrastructure =
                      \<lparr>cloud = False, mfa = False, incidentProcess = False,
                       supplyChain = False\<rparr>,
                    governanceMaturity = Null\<rparr>\<rparr>
      in goToStep pg 1 st1)"

subsection \<open>Selecting an option (lines 58-91)\<close>

text \<open>
  \<open>selectOption\<close> stores the value, marks the chosen card and leaves the move to the next
  view to a timer. The pending timers are kept beside the global object; every call of
  \<open>setTimeout\<close> in the script uses the same delay, so they run in the order they were set.
  \<open>updateSelectionUI\<close> calls \<open>querySelectorAll\<close> on the element \<open>step-n\<close>: when the page
  has no such element this is a call on \<open>null\<close> and throws a \<open>TypeError\<close>, after the
  answer was stored and before the timer is set.
\<close>

datatype completion = Returned | TypeError

datatype task = GoToStep int | CalculateAndShowResults

record runtime =
  state :: state
  timers :: "task list"

definition setTimeout :: "task \<Rightarrow> runtime \<Rightarrow> runtime" where
  "setTimeout t rt = rt\<lparr>timers := timers rt @ [t]\<rparr>"

definition updateSelectionUI :: "page \<Rightarrow> int \<Rightarrow> jsvalue \<Rightarrow> completion" where
  "updateSelectionUI pg stp v = (if stepElement pg stp then Returned else TypeError)"

definition selectOption :: "page \<Rightarrow> int \<Rightarrow> jsvalue \<Rightarrow> runtime \<Rightarrow> completion \<times> runtime" where
  "selectOption pg stp v rt =
     (if stp = 1 then
        (let rt1 = rt\<lparr>state := (state rt)\<lparr>answers := (answers (state rt))\<lparr>entitySize := v\<rparr>\<rparr>\<rparr>
         in case updateSelectionUI pg 1 v of
              TypeError \<Rightarrow> (TypeError, rt1)
            | Returned \<Rightarrow> (Returned, setTimeout (GoToStep 2) rt1))
      else if stp = 2 then
        (let rt1 = rt\<lparr>state := (state rt)\<lparr>answers :=
                      (answers (state rt))\<lparr>serviceSensitivity := v\<rparr>\<rparr>\<rparr>
         in case updateSelectionUI pg 2 v of
              TypeError \<Rightarrow> (TypeError, rt1)
            | Returned \<Rightarrow> (Returned, setTimeout (GoToStep 3) rt1))
      else if stp = 4 then
        (let rt1 = rt\<lparr>state := (state rt)\<lparr>answers :=
                      (answers (state rt))\<lparr>governanceMaturity := v\<rparr>\<rparr>\<rparr>
         in case updateSelectionUI pg 4 v of
              TypeError \<Rightarrow> (TypeError, rt1)
            | Returned \<Rightarrow> (Returned, setTimeout CalculateAndShowResults rt1))
      else (Returned, rt))"

subsection \<open>Two worked records of the specification\<close>

definition scenarioA :: answers where
  "scenarioA =
     \<lparr>entitySize = Str ''large'', serviceSensitivity = Str ''high'',
      digitalInfrastructure =
        \<lparr>cloud = False, mfa = True, incidentProcess = True, supplyChain = False\<rparr>,
      governanceMaturity = Str ''iso''\<rparr>"

definition scenarioB :: answers where
  "scenarioB =
     \<lparr>entitySize = Str ''small'', serviceSensitivity = Str ''low'',
      digitalInfrastructure =
        \<lparr>cloud = True, mfa = False, incidentProcess = False, supplyChain = True\<rparr>,
      governanceMaturity = Str ''none''\<rparr>"

subsection \<open>Facts about the calculator\<close>

lemma infraRisk_sum:
  "infraRisk d =
     (if cloud d then 1 else 0) + (if mfa d then 0 else 2) +
     (if incidentProcess d then 0 else 2) + (if supplyChain d then 1 else 0)"
  by (simp add: infraRisk_def)

lemma infraRisk_bounds: "0 \<le> infraRisk d \<and> infraRisk d \<le> 6"
  by (simp add: infraRisk_sum)

lemma score_sum:
  "score a =
     sizeWeight (entitySize a) + sensitivityWeight (serviceSensitivity a) +
     min (infraRisk (digitalInfrastructure a)) 3 + governanceWeight (governanceMaturity a)"
  by (simp add: score_def sizeWeight_def sensitivityWeight_def governanceWeight_def
      governanceModifier_def)

lemma calculateTier_state: "snd (calculateTier st) = st"
  by (simp add: calculateTier_def Let_def)

lemma calculateTier_range:
  "fst (calculateTier st) = ''tier-1'' \<or> fst (calculateTier st) = ''tier-2'' \<or>
   fst (calculateTier st) = ''tier-3''"
  by (simp add: calculateTier_def Let_def)

lemma score_update_infra:
  "score a =
     score (a\<lparr>digitalInfrastructure :=
               \<lparr>cloud = False, mfa = True, incidentProcess = True, supplyChain = False\<rparr>\<rparr>) +
     min (infraRisk (digitalInfrastructure a)) 3"
  by (simp add: score_sum infraRisk_sum)

lemma tierLevel_mono:
  "score (answers s1) \<le> score (answers s2) \<Longrightarrow>
   tierLevel (fst (calculateTier s1)) \<le> tierLevel (fst (calculateTier s2))"
  by (simp add: calculateTier_def Let_def tierLevel_def)

lemma score_size_steps:
  "score (a\<lparr>entitySize := Str ''medium''\<rparr>) = score (a\<lparr>entitySize := Str ''small''\<rparr>) + 1"
  "score (a\<lparr>entitySize := Str ''large''\<rparr>) = score (a\<lparr>entitySize := Str ''small''\<rparr>) + 2"
  by (simp_all add: score_def)

lemma score_sensitivity_steps:
  "score (a\<lparr>serviceSensitivity := Str ''medium''\<rparr>) =
     score (a\<lparr>serviceSensitivity := Str ''low''\<rparr>) + 1"
  "score (a\<lparr>serviceSensitivity := Str ''high''\<rparr>) =
     score (a\<lparr>serviceSensitivity := Str ''low''\<rparr>) + 2"
  by (simp_all add: score_def)

subsection \<open>Claims about the calculator\<close>

text \<open>
  C1. The score that \<open>calculateTier\<close> computes is a sum of fixed integer weights. The entity
  size gives 3 for large, 2 for medium and 1 for small or anything else; the service
  sensitivity gives 3 for high, 2 for medium and 1 for low or anything else; the governance
  maturity gives +2 for none, +1 for basic, -1 for structured, -2 for iso and 0 for anything
  else. The fourth summand is the capped infrastructure subtotal. This holds for every
  record, fully set or not.
\<close>

theorem score_is_sum_of_weights:
  "score a =
     sizeWeight (entitySize a) + sensitivityWeight (serviceSensitivity a) +
     min (infraRisk (digitalInfrastructure a)) 3 + governanceWeight (governanceMaturity a)"
  by (rule score_sum)

text \<open>
  C2. The subtotal \<open>infraRisk\<close> adds 1 for cloud, 2 for missing MFA, 2 for a missing incident
  process and 1 for supply chain exposure, and the score grows by the smaller of the
  subtotal and 3: it exceeds the score of the same record with no condition triggered by
  exactly that amount. Whenever the subtotal is above 3 the amount is 3. With cloud set and
  MFA and incident process missing the subtotal is 5 and the amount is 3.
\<close>

theorem infraRisk_capped_at_three:
  "infraRisk d =
     (if cloud d then 1 else 0) + (if mfa d then 0 else 2) +
     (if incidentProcess d then 0 else 2) + (if supplyChain d then 1 else 0)
   \<and> score a =
       score (a\<lparr>digitalInfrastructure :=
                 \<lparr>cloud = False, mfa = True, incidentProcess = True, supplyChain = False\<rparr>\<rparr>) +
       min (infraRisk (digitalInfrastructure a)) 3
   \<and> (infraRisk (digitalInfrastructure a) > 3 \<longrightarrow>
       score a =
         score (a\<lparr>digitalInfrastructure :=
                   \<lparr>cloud = False, mfa = True, incidentProcess = True, supplyChain = False\<rparr>\<rparr>) + 3)
   \<and> infraRisk \<lparr>cloud = True, mfa = False, incidentProcess = False, supplyChain = False\<rparr> = 5
   \<and> min (infraRisk \<lparr>cloud = True, mfa = False, incidentProcess = False, supplyChain = False\<rparr>) 3 = 3"
proof -
  have cap: "infraRisk (digitalInfrastructure a) > 3 \<Longrightarrow>
      min (infraRisk (digitalInfrastructure a)) 3 = 3"
    by simp
  show ?thesis
    using score_update_infra [of a] cap
    by (simp add: infraRisk_sum)
qed

theorem infraRisk_capped_at_three_witness:
  "infraRisk (digitalInfrastructure
      \<lparr>entitySize = Str ''small'', serviceSensitivity = Str ''low'',
       digitalInfrastructure =
         \<lparr>cloud = True, mfa = False, incidentProcess = False, supplyChain = False\<rparr>,
       governanceMaturity = Str ''basic''\<rparr>) > 3
   \<and> score
      \<lparr>entitySize = Str ''small'', serviceSensitivity = Str ''low'',
       digitalInfrastructure =
         \<lparr>cloud = True, mfa = False, incidentProcess = False, supplyChain = False\<rparr>,
       governanceMaturity = Str ''basic''\<rparr> =
     score
      \<lparr>entitySize = Str ''small'', serviceSensitivity = Str ''low'',
       digitalInfrastructure =
         \<lparr>cloud = False, mfa = True, incidentProcess = True, supplyChain = False\<rparr>,
       governanceMaturity = Str ''basic''\<rparr> + 3"
  using infraRisk_capped_at_three
    [of "\<lparr>cloud = True, mfa = False, incidentProcess = False, supplyChain = False\<rparr>"
        "\<lparr>entitySize = Str ''small'', serviceSensitivity = Str ''low'',
          digitalInfrastructure =
            \<lparr>cloud = True, mfa = False, incidentProcess = False, supplyChain = False\<rparr>,
          governanceMaturity = Str ''basic''\<rparr>"]
  by (simp add: infraRisk_sum)

text \<open>
  C3. The tier follows from the final score by inclusive lower bounds: a score of 6 or more
  gives \<open>tier-3\<close>, a score from 4 up to but not including 6 gives \<open>tier-2\<close>, a score below 4
  gives \<open>tier-1\<close>. In particular 6 gives \<open>tier-3\<close>, 5 and 4 give \<open>tier-2\<close>, 3 gives
  \<open>tier-1\<close>.
\<close>

theorem calculateTier_thresholds:
  "(score (answers st) \<ge> 6 \<longrightarrow> fst (calculateTier st) = ''tier-3'')
   \<and> (4 \<le> score (answers st) \<and> score (answers st) < 6 \<longrightarrow>
        fst (calculateTier st) = ''tier-2'')
   \<and> (score (answers st) < 4 \<longrightarrow> fst (calculateTier st) = ''tier-1'')
   \<and> (score (answers st) = 6 \<longrightarrow> fst (calculateTier st) = ''tier-3'')
   \<and> (score (answers st) = 5 \<longrightarrow> fst (calculateTier st) = ''tier-2'')
   \<and> (score (answers st) = 4 \<longrightarrow> fst (calculateTier st) = ''tier-2'')
   \<and> (score (answers st) = 3 \<longrightarrow> fst (calculateTier st) = ''tier-1'')"
  by (simp add: calculateTier_def Let_def)

theorem calculateTier_thresholds_witness:
  "score (answers
      \<lparr>step = 4, answers =
        \<lparr>entitySize = Str ''large'', serviceSensitivity = Str ''medium'',
         digitalInfrastructure =
           \<lparr>cloud = False, mfa = True, incidentProcess = True, supplyChain = False\<rparr>,
         governanceMaturity = Str ''basic''\<rparr>\<rparr>) = 6
   \<and> fst (calculateTier
      \<lparr>step = 4, answers =
        \<lparr>entitySize = Str ''large'', serviceSensitivity = Str ''medium'',
         digitalInfrastructure =
           \<lparr>cloud = False, mfa = True, incidentProcess = True, supplyChain = False\<rparr>,
         governanceMaturity = Str ''basic''\<rparr>\<rparr>) = ''tier-3''
   \<and> score (answers
      \<lparr>step = 4, answers =
        \<lparr>entitySize = Str ''medium'', serviceSensitivity = Str ''medium'',
         digitalInfrastructure =
           \<lparr>cloud = False, mfa = True, incidentProcess = True, supplyChain = False\<rparr>,
         governanceMaturity = Str ''basic''\<rparr>\<rparr>) = 5
   \<and> fst (calculateTier
      \<lparr>step = 4, answers =
        \<lparr>entitySize = Str ''medium'', serviceSensitivity = Str ''medium'',
         digitalInfrastructure =
           \<lparr>cloud = False, mfa = True, incidentProcess = True, supplyChain = False\<rparr>,
         governanceMaturity = Str ''basic''\<rparr>\<rparr>) = ''tier-2''
   \<and> score (answers
      \<lparr>step = 4, answers =
        \<lparr>entitySize = Str ''large'', serviceSensitivity = Str ''high'',
         digitalInfrastructure =
           \<lparr>cloud = False, mfa = True, incidentProcess = True, supplyChain = False\<rparr>,
         governanceMaturity = Str ''iso''\<rparr>\<rparr>) = 4
   \<and> fst (calculateTier
      \<lparr>step = 4, answers =
        \<lparr>entitySize = Str ''large'', serviceSensitivity = Str ''high'',
         digitalInfrastructure =
           \<lparr>cloud = False, mfa = True, incidentProcess = True, supplyChain = False\<rparr>,
         governanceMaturity = Str ''iso''\<rparr>\<rparr>) = ''tier-2''
   \<and> score (answers
      \<lparr>step = 4, answers =
        \<lparr>entitySize = Str ''small'', serviceSensitivity = Str ''low'',
         digitalInfrastructure =
           \<lparr>cloud = False, mfa = True, incidentProcess = True, supplyChain = False\<rparr>,
         governanceMaturity = Str ''basic''\<rparr>\<rparr>) = 3
   \<and> fst (calculateTier
      \<lparr>step = 4, answers =
        \<lparr>entitySize = Str ''small'', serviceSensitivity = Str ''low'',
         digitalInfrastructure =
           \<lparr>cloud = False, mfa = True, incidentProcess = True, supplyChain = False\<rparr>,
         governanceMaturity = Str ''basic''\<rparr>\<rparr>) = ''tier-1''"
  using calculateTier_thresholds
    [of "\<lparr>step = 4, answers =
        \<lparr>entitySize = Str ''large'', serviceSensitivity = Str ''medium'',
         digitalInfrastructure =
           \<lparr>cloud = False, mfa = True, incidentProcess = True, supplyChain = False\<rparr>,
         governanceMaturity = Str ''basic''\<rparr>\<rparr>"]
    calculateTier_thresholds
    [of "\<lparr>step = 4, answers =
        \<lparr>entitySize = Str ''medium'', serviceSensitivity = Str ''medium'',
         digitalInfrastructure =
           \<lparr>cloud = False, mfa = True, incidentProcess = True, supplyChain = False\<rparr>,
         governanceMaturity = Str ''basic''\<rparr>\<rparr>"]
    calculateTier_thresholds
    [of "\<lparr>step = 4, answers =
        \<lparr>entitySize = Str ''large'', serviceSensitivity = Str ''high'',
         digitalInfrastructure =
           \<lparr>cloud = False, mfa = True, incidentProcess = True, supplyChain = False\<rparr>,
         governanceMaturity = Str ''iso''\<rparr>\<rparr>"]
    calculateTier_thresholds
    [of "\<lparr>step = 4, answers =
        \<lparr>entitySize = Str ''small'', serviceSensitivity = Str ''low'',
         digitalInfrastructure =
           \<lparr>cloud = False, mfa = True, incidentProcess = True, supplyChain = False\<rparr>,
         governanceMaturity = Str ''basic''\<rparr>\<rparr>"]
  by (simp add: score_sum infraRisk_sum sizeWeight_def sensitivityWeight_def governanceWeight_def)

text \<open>
  C4. Two worked records. A large entity with high sensitivity, MFA and an incident process,
  no cloud, no supply chain exposure and ISO governance scores 3 + 3 + 0 - 2 = 4 and gets
  \<open>tier-2\<close>. A small entity with low sensitivity, no MFA, no incident process, cloud,
  supply chain exposure and no governance scores 1 + 1 + 3 + 2 = 7 and gets \<open>tier-3\<close>.
\<close>

theorem calculateTier_scenarios:
  "sizeWeight (entitySize scenarioA) = 3
   \<and> sensitivityWeight (serviceSensitivity scenarioA) = 3
   \<and> min (infraRisk (digitalInfrastructure scenarioA)) 3 = 0
   \<and> governanceModifier (governanceMaturity scenarioA) = - 2
   \<and> score scenarioA = 3 + 3 + 0 - 2
   \<and> score scenarioA = 4
   \<and> fst (calculateTier \<lparr>step = n, answers = scenarioA\<rparr>) = ''tier-2''
   \<and> sizeWeight (entitySize scenarioB) = 1
   \<and> sensitivityWeight (serviceSensitivity scenarioB) = 1
   \<and> min (infraRisk (digitalInfrastructure scenarioB)) 3 = 3
   \<and> governanceModifier (governanceMaturity scenarioB) = 2
   \<and> score scenarioB = 1 + 1 + 3 + 2
   \<and> score scenarioB = 7
   \<and> fst (calculateTier \<lparr>step = n, answers = scenarioB\<rparr>) = ''tier-3''"
  by (simp add: calculateTier_def score_def infraRisk_def governanceModifier_def
      sizeWeight_def sensitivityWeight_def scenarioA_def scenarioB_def)

text \<open>
  C5. On every record whose entity size is small, medium or large, whose sensitivity is low,
  medium or high, whose governance maturity is none, basic, structured or iso, with any of
  the sixteen settings of the four infrastructure flags, \<open>calculateTier\<close> returns one of
  the three tier strings, leaves the global object as it found it, and returns the same
  tier on any other state that holds an equal record.
\<close>

theorem calculateTier_total_deterministic:
  assumes "entitySize (answers st) \<in> {Str ''small'', Str ''medium'', Str ''large''}"
    and "serviceSensitivity (answers st) \<in> {Str ''low'', Str ''medium'', Str ''high''}"
    and "governanceMaturity (answers st) \<in>
           {Str ''none'', Str ''basic'', Str ''structured'', Str ''iso''}"
    and "answers st' = answers st"
  shows "fst (calculateTier st) \<in> {''tier-1'', ''tier-2'', ''tier-3''}
         \<and> snd (calculateTier st) = st
         \<and> fst (calculateTier st') = fst (calculateTier st)"
proof -
  have "fst (calculateTier st) \<in> {''tier-1'', ''tier-2'', ''tier-3''}"
    using calculateTier_range [of st] by auto
  moreover have "snd (calculateTier st) = st"
    by (rule calculateTier_state)
  moreover have "fst (calculateTier st') = fst (calculateTier st)"
    using assms(4) by (simp add: calculateTier_def Let_def)
  ultimately show ?thesis by simp
qed

theorem calculateTier_total_deterministic_witness:
  "fst (calculateTier \<lparr>step = 4, answers = scenarioA\<rparr>) \<in> {''tier-1'', ''tier-2'', ''tier-3''}
   \<and> snd (calculateTier \<lparr>step = 4, answers = scenarioA\<rparr>) = \<lparr>step = 4, answers = scenarioA\<rparr>
   \<and> fst (calculateTier \<lparr>step = 1, answers = scenarioA\<rparr>) =
       fst (calculateTier \<lparr>step = 4, answers = scenarioA\<rparr>)"
proof -
  have h1: "entitySize (answers \<lparr>step = 4, answers = scenarioA\<rparr>) \<in>
      {Str ''small'', Str ''medium'', Str ''large''}"
    by (simp add: scenarioA_def)
  have h2: "serviceSensitivity (answers \<lparr>step = 4, answers = scenarioA\<rparr>) \<in>
      {Str ''low'', Str ''medium'', Str ''high''}"
    by (simp add: scenarioA_def)
  have h3: "governanceMaturity (answers \<lparr>step = 4, answers = scenarioA\<rparr>) \<in>
      {Str ''none'', Str ''basic'', Str ''structured'', Str ''iso''}"
    by (simp add: scenarioA_def)
  have h4: "answers \<lparr>step = 1, answers = scenarioA\<rparr> = answers \<lparr>step = 4, answers = scenarioA\<rparr>"
    by simp
  show ?thesis
    by (rule calculateTier_total_deterministic [OF h1 h2 h3 h4])
qed

text \<open>
  C6. With every other field fixed, the score does not decrease when the entity size moves
  up from small to medium to large, nor when the service sensitivity moves up from low to
  medium to high, and the tier returned does not get lower either.
\<close>

theorem score_monotone_in_size_and_sensitivity:
  "score (a\<lparr>entitySize := Str ''small''\<rparr>) \<le> score (a\<lparr>entitySize := Str ''medium''\<rparr>)
   \<and> score (a\<lparr>entitySize := Str ''medium''\<rparr>) \<le> score (a\<lparr>entitySize := Str ''large''\<rparr>)
   \<and> score (a\<lparr>entitySize := Str ''small''\<rparr>) \<le> score (a\<lparr>entitySize := Str ''large''\<rparr>)
   \<and> score (a\<lparr>serviceSensitivity := Str ''low''\<rparr>) \<le>
       score (a\<lparr>serviceSensitivity := Str ''medium''\<rparr>)
   \<and> score (a\<lparr>serviceSensitivity := Str ''medium''\<rparr>) \<le>
       score (a\<lparr>serviceSensitivity := Str ''high''\<rparr>)
   \<and> score (a\<lparr>serviceSensitivity := Str ''low''\<rparr>) \<le>
       score (a\<lparr>serviceSensitivity := Str ''high''\<rparr>)
   \<and> tierLevel (fst (calculateTier (st\<lparr>answers := a\<lparr>entitySize := Str ''small''\<rparr>\<rparr>))) \<le>
       tierLevel (fst (calculateTier (st\<lparr>answers := a\<lparr>entitySize := Str ''medium''\<rparr>\<rparr>)))
   \<and> tierLevel (fst (calculateTier (st\<lparr>answers := a\<lparr>entitySize := Str ''medium''\<rparr>\<rparr>))) \<le>
       tierLevel (fst (calculateTier (st\<lparr>answers := a\<lparr>entitySize := Str ''large''\<rparr>\<rparr>)))
   \<and> tierLevel (fst (calculateTier (st\<lparr>answers := a\<lparr>serviceSensitivity := Str ''low''\<rparr>\<rparr>))) \<le>
       tierLevel (fst (calculateTier (st\<lparr>answers := a\<lparr>serviceSensitivity := Str ''medium''\<rparr>\<rparr>)))
   \<and> tierLevel (fst (calculateTier (st\<lparr>answers := a\<lparr>serviceSensitivity := Str ''medium''\<rparr>\<rparr>))) \<le>
       tierLevel (fst (calculateTier (st\<lparr>answers := a\<lparr>serviceSensitivity := Str ''high''\<rparr>\<rparr>)))"
  by (intro conjI tierLevel_mono) (simp_all add: score_size_steps score_sensitivity_steps)

text \<open>
  C10. \<open>calculateTier\<close> also answers on records that are not complete: on every state it
  returns one of the three tier strings. An entity size that is still \<open>null\<close> counts 1, a
  service sensitivity that is still \<open>null\<close> counts 1, a governance maturity that is still
  \<open>null\<close> counts 0. On the record the session starts with the score is 1 + 1 + 3 + 0 and
  the result is \<open>tier-2\<close>.
\<close>

theorem calculateTier_defaults_when_unset:
  "fst (calculateTier st) \<in> {''tier-1'', ''tier-2'', ''tier-3''}
   \<and> score (a\<lparr>entitySize := Null\<rparr>) =
       1 + sensitivityWeight (serviceSensitivity a) +
       min (infraRisk (digitalInfrastructure a)) 3 + governanceWeight (governanceMaturity a)
   \<and> score (a\<lparr>serviceSensitivity := Null\<rparr>) =
       sizeWeight (entitySize a) + 1 +
       min (infraRisk (digitalInfrastructure a)) 3 + governanceWeight (governanceMaturity a)
   \<and> score (a\<lparr>governanceMaturity := Null\<rparr>) =
       sizeWeight (entitySize a) + sensitivityWeight (serviceSensitivity a) +
       min (infraRisk (digitalInfrastructure a)) 3 + 0
   \<and> score initialAnswers = 1 + 1 + 3 + 0
   \<and> calculateTier initialState = (''tier-2'', initialState)"
proof -
  have "fst (calculateTier st) \<in> {''tier-1'', ''tier-2'', ''tier-3''}"
    using calculateTier_range [of st] by auto
  moreover have "score initialAnswers = 1 + 1 + 3 + 0"
    by (simp add: score_def infraRisk_def governanceModifier_def initialAnswers_def)
  moreover from this have "calculateTier initialState = (''tier-2'', initialState)"
    by (simp add: calculateTier_def initialState_def)
  ultimately show ?thesis
    by (simp add: score_sum sizeWeight_def sensitivityWeight_def governanceWeight_def)
qed

subsection \<open>Facts about navigation and selection\<close>

lemma goToStep_answers: "answers (goToStep pg n st) = answers st"
  by (simp add: goToStep_def)

lemma goToStep_present: "steps pg n \<Longrightarrow> goToStep pg n st = st\<lparr>step := n\<rparr>"
  by (simp add: goToStep_def)

lemma goToStep_absent: "\<not> steps pg n \<Longrightarrow> goToStep pg n st = st"
  by (simp add: goToStep_def)

lemma selectOption_state_1:
  "state (snd (selectOption pg 1 v rt)) =
     (state rt)\<lparr>answers := (answers (state rt))\<lparr>entitySize := v\<rparr>\<rparr>"
  by (simp add: selectOption_def setTimeout_def Let_def split: completion.split)

lemma selectOption_state_2:
  "state (snd (selectOption pg 2 v rt)) =
     (state rt)\<lparr>answers := (answers (state rt))\<lparr>serviceSensitivity := v\<rparr>\<rparr>"
  by (simp add: selectOption_def setTimeout_def Let_def split: completion.split)

lemma selectOption_state_4:
  "state (snd (selectOption pg 4 v rt)) =
     (state rt)\<lparr>answers := (answers (state rt))\<lparr>governanceMaturity := v\<rparr>\<rparr>"
  by (simp add: selectOption_def setTimeout_def Let_def split: completion.split)

lemma selectOption_returns:
  "stepElement pg stp \<Longrightarrow> fst (selectOption pg stp v rt) = Returned"
  by (auto simp add: selectOption_def updateSelectionUI_def Let_def)

lemma selectOption_timers_1:
  "stepElement pg 1 \<Longrightarrow>
   timers (snd (selectOption pg 1 v rt)) = timers rt @ [GoToStep 2]"
  by (simp add: selectOption_def updateSelectionUI_def setTimeout_def Let_def)

lemma selectOption_step:
  "step (state (snd (selectOption pg stp v rt))) = step (state rt)"
  by (simp add: selectOption_def setTimeout_def Let_def split: completion.split)

subsection \<open>Claims about navigation and selection\<close>

text \<open>
  C7. On a page that holds the view of step 1, \<open>restartAssessment\<close> turns any state into
  the initial one: the step is 1, entity size, service sensitivity and governance maturity
  are \<open>null\<close> again and the four infrastructure flags are false, whatever they were before.
\<close>

theorem restartAssessment_resets:
  assumes "steps pg 1"
  shows "restartAssessment pg st = initialState
         \<and> step (restartAssessment pg st) = 1
         \<and> entitySize (answers (restartAssessment pg st)) = Null
         \<and> serviceSensitivity (answers (restartAssessment pg st)) = Null
         \<and> governanceMaturity (answers (restartAssessment pg st)) = Null
         \<and> digitalInfrastructure (answers (restartAssessment pg st)) =
             \<lparr>cloud = False, mfa = False, incidentProcess = False, supplyChain = False\<rparr>"
  using assms
  by (simp add: restartAssessment_def goToStep_def initialState_def initialAnswers_def)

theorem restartAssessment_resets_witness:
  "steps \<lparr>stepsEntry = (\<lambda>n. True), stepElement = (\<lambda>n. True)\<rparr> 1
   \<and> restartAssessment \<lparr>stepsEntry = (\<lambda>n. True), stepElement = (\<lambda>n. True)\<rparr>
        \<lparr>step = 5, answers = scenarioB\<rparr> = initialState
   \<and> step (restartAssessment \<lparr>stepsEntry = (\<lambda>n. True), stepElement = (\<lambda>n. True)\<rparr>
        \<lparr>step = 5, answers = scenarioB\<rparr>) = 1"
proof -
  have h: "steps \<lparr>stepsEntry = (\<lambda>n. True), stepElement = (\<lambda>n. True)\<rparr> 1"
    by (simp add: steps_def)
  show ?thesis
    using h restartAssessment_resets [OF h, of "\<lparr>step = 5, answers = scenarioB\<rparr>"]
    by (simp add: initialState_def)
qed

text \<open>
  C8. Called with a step from 2 to 5, on a page that holds the view of the step before it,
  \<open>goBack\<close> sets the current step to that step minus one and changes no answer. Called
  with step 1 it changes nothing at all.
\<close>

theorem goBack_previous_step:
  assumes "currentStep \<in> {2, 3, 4, 5}"
    and "steps pg (currentStep - 1)"
  shows "step (goBack pg currentStep st) = currentStep - 1
         \<and> answers (goBack pg currentStep st) = answers st
         \<and> goBack pg currentStep st = st\<lparr>step := currentStep - 1\<rparr>
         \<and> goBack pg 1 st = st"
proof -
  from assms(1) have gt: "currentStep > 1" by auto
  with assms(2) have "goBack pg currentStep st = st\<lparr>step := currentStep - 1\<rparr>"
    by (simp add: goBack_def goToStep_present)
  moreover have "goBack pg 1 st = st"
    by (simp add: goBack_def)
  ultimately show ?thesis by simp
qed

theorem goBack_previous_step_witness:
  "(3::int) \<in> {2, 3, 4, 5}
   \<and> steps \<lparr>stepsEntry = (\<lambda>n. True), stepElement = (\<lambda>n. True)\<rparr> (3 - 1)
   \<and> step (goBack \<lparr>stepsEntry = (\<lambda>n. True), stepElement = (\<lambda>n. True)\<rparr> 3
        \<lparr>step = 3, answers = scenarioA\<rparr>) = 2
   \<and> answers (goBack \<lparr>stepsEntry = (\<lambda>n. True), stepElement = (\<lambda>n. True)\<rparr> 3
        \<lparr>step = 3, answers = scenarioA\<rparr>) = scenarioA
   \<and> goBack \<lparr>stepsEntry = (\<lambda>n. True), stepElement = (\<lambda>n. True)\<rparr> 1
        \<lparr>step = 3, answers = scenarioA\<rparr> = \<lparr>step = 3, answers = scenarioA\<rparr>"
proof -
  have h1: "(3::int) \<in> {2, 3, 4, 5}" by simp
  have h2: "steps \<lparr>stepsEntry = (\<lambda>n. True), stepElement = (\<lambda>n. True)\<rparr> (3 - 1)"
    by (simp add: steps_def)
  show ?thesis
    using h1 h2 goBack_previous_step [OF h1 h2, of "\<lparr>step = 3, answers = scenarioA\<rparr>"]
    by simp
qed

text \<open>
  C9. Selecting a value \<open>v\<close> and then a value \<open>w\<close> for the same step, with no timer run in
  between, leaves the record as it was before both calls except that the field of that step
  holds \<open>w\<close>: the entity size for step 1, the service sensitivity for step 2, the
  governance maturity for step 4. The current step is still the one before the calls, and on
  a page that holds the view of that step neither call throws. Choosing large and then small
  in step 1 leaves small.
\<close>

theorem selectOption_overwrites:
  "answers (state (snd (selectOption pg 1 w (snd (selectOption pg 1 v rt))))) =
     (answers (state rt))\<lparr>entitySize := w\<rparr>
   \<and> answers (state (snd (selectOption pg 2 w (snd (selectOption pg 2 v rt))))) =
       (answers (state rt))\<lparr>serviceSensitivity := w\<rparr>
   \<and> answers (state (snd (selectOption pg 4 w (snd (selectOption pg 4 v rt))))) =
       (answers (state rt))\<lparr>governanceMaturity := w\<rparr>
   \<and> step (state (snd (selectOption pg stp w (snd (selectOption pg stp v rt))))) =
       step (state rt)
   \<and> (stepElement pg stp \<longrightarrow>
        fst (selectOption pg stp v rt) = Returned
        \<and> fst (selectOption pg stp w (snd (selectOption pg stp v rt))) = Returned)
   \<and> entitySize (answers (state (snd (selectOption pg 1 (Str ''small'')
        (snd (selectOption pg 1 (Str ''large'') rt)))))) = Str ''small''"
  by (simp add: selectOption_state_1 selectOption_state_2 selectOption_state_4
      selectOption_step selectOption_returns)

theorem selectOption_overwrites_witness:
  "stepElement \<lparr>stepsEntry = (\<lambda>n. True), stepElement = (\<lambda>n. True)\<rparr> 1
   \<and> fst (selectOption \<lparr>stepsEntry = (\<lambda>n. True), stepElement = (\<lambda>n. True)\<rparr> 1
        (Str ''large'') \<lparr>state = initialState, timers = []\<rparr>) = Returned
   \<and> fst (selectOption \<lparr>stepsEntry = (\<lambda>n. True), stepElement = (\<lambda>n. True)\<rparr> 1
        (Str ''small'')
        (snd (selectOption \<lparr>stepsEntry = (\<lambda>n. True), stepElement = (\<lambda>n. True)\<rparr> 1
           (Str ''large'') \<lparr>state = initialState, timers = []\<rparr>))) = Returned
   \<and> answers (state (snd (selectOption
        \<lparr>stepsEntry = (\<lambda>n. True), stepElement = (\<lambda>n. True)\<rparr> 1 (Str ''small'')
        (snd (selectOption \<lparr>stepsEntry = (\<lambda>n. True), stepElement = (\<lambda>n. True)\<rparr> 1
           (Str ''large'') \<lparr>state = initialState, timers = []\<rparr>))))) =
       initialAnswers\<lparr>entitySize := Str ''small''\<rparr>"
  using selectOption_overwrites
    [of "\<lparr>stepsEntry = (\<lambda>n. True), stepElement = (\<lambda>n. True)\<rparr>" "Str ''small''"
        "Str ''large''" "\<lparr>state = initialState, timers = []\<rparr>" 1]
  by (simp add: initialState_def)

end
